theory Spec2Isabelle
  imports Complex_Main
begin

section \<open>Python values, errors and the asyncio task handle\<close>

text \<open>
  Times, durations, bandwidths and ratios are Python numbers; their values are rationals
  (every float is one). The sum that advances the playback clock is rounded by Python and
  is a parameter of the model. Byte counters are Python integers. Exceptions are values
  of \<open>py_error\<close>.
\<close>

datatype py_error =
  TypeError | KeyError | IndexError | ZeroDivisionError | AttributeError
  | CancelledError | NetworkError

type_synonym bytes = string

text \<open>
  The attribute \<open>segment_content_length\<close> holds the integer \<open>0\<close> after
  \<open>Emulator.__init__\<close> and, after a download, the value of the response header
  \<open>Content-Length\<close>, which the HTTP client hands over as text.
\<close>

datatype pyval = PyInt int | PyStr string

text \<open>\<open>value * n\<close> for an integer \<open>n\<close>: product of integers, repetition of a string.\<close>

definition py_mul_int :: "pyval \<Rightarrow> int \<Rightarrow> pyval" where
  "py_mul_int v n =
     (case v of PyInt i \<Rightarrow> PyInt (i * n)
      | PyStr s \<Rightarrow> PyStr (concat (replicate (nat n) s)))"

text \<open>\<open>value / b\<close> for a number \<open>b\<close>: a string operand is a type error, a zero divisor
  raises.\<close>

definition py_truediv :: "pyval \<Rightarrow> rat \<Rightarrow> py_error + rat" where
  "py_truediv v b =
     (case v of PyStr s \<Rightarrow> Inl TypeError
      | PyInt i \<Rightarrow> if b = 0 then Inl ZeroDivisionError else Inr (of_int i / b))"

text \<open>\<open>r * value\<close> for a configured fraction \<open>r\<close>: a string operand is a type error.\<close>

definition py_ratio_mul :: "rat \<Rightarrow> pyval \<Rightarrow> py_error + rat" where
  "py_ratio_mul r v =
     (case v of PyStr s \<Rightarrow> Inl TypeError | PyInt i \<Rightarrow> Inr (r * of_int i))"

text \<open>
  An asyncio task as the code sees it: \<open>cancel()\<close> on a task that is still pending
  cancels it, on a task that is already done it changes nothing. \<open>cancel_calls\<close>
  records how often \<open>cancel()\<close> was invoked on the handle.
\<close>

datatype task_status = Pending | Finished | Cancelled

record Task =
  target :: string
  status :: task_status
  cancel_calls :: nat

definition create_task :: "string \<Rightarrow> Task" where
  "create_task url = \<lparr>target = url, status = Pending, cancel_calls = 0\<rparr>"

definition cancel :: "Task \<Rightarrow> Task" where
  "cancel t = t\<lparr>cancel_calls := Suc (cancel_calls t),
                status := (if status t = Pending then Cancelled else status t)\<rparr>"

text \<open>
  Python list indexing with an integer: negative indices count from the end, an index
  outside the list raises. \<open>py_pos\<close> is the position read in a list of length \<open>n\<close>.
\<close>

definition py_pos :: "nat \<Rightarrow> int \<Rightarrow> py_error + nat" where
  "py_pos n i =
     (let j = (if i < 0 then int n + i else i)
      in if 0 \<le> j \<and> j < int n then Inr (nat j) else Inl IndexError)"

definition py_index :: "'a list \<Rightarrow> int \<Rightarrow> py_error + 'a" where
  "py_index xs i =
     (case py_pos (length xs) i of Inl err \<Rightarrow> Inl err | Inr j \<Rightarrow> Inr (xs ! j))"

text \<open>The kinds of event that the event bridge carries.\<close>

datatype Events =
  MPDParseComplete | CanPlay | Play | Stall | DownloadStart | DownloadComplete
  | InitializationDownloadComplete | DownloadEnd | End

section \<open>Collaborators: configuration, manifest, HTTP response\<close>

record Config =
  chunk_size :: nat
  update_interval :: rat
  max_buffer :: rat
  timeout_max_ratio :: rat
  min_frame_chunk_ratio :: rat
  vq_threshold_size_ratio :: rat

record Representation =
  rid :: string
  urls :: "string list"
  durations :: "rat list"
  startNumber :: int
  initialization :: string
  is_inited :: bool

record MPD =
  representations :: "Representation list"
  minBufferTime :: rat
  mediaPresentationDuration :: rat

text \<open>
  A response: its headers, and the chunks that the successive calls of
  \<open>resp.content.read\<close> return. A read returns the empty chunk at the end of the
  body, and only there.
\<close>

record Response =
  headers :: "(string \<times> string) list"
  content :: "bytes list"

section \<open>emulator.py: the download and its byte counter\<close>

record Emulator =
  data_downloaded :: int
  data_downloaded_before_this_segment :: int
  set_to_lowest_quaity :: bool
  task :: "Task option"
  segment_content_length :: pyval

definition Emulator_init :: Emulator where
  "Emulator_init =
     \<lparr>data_downloaded = 0, data_downloaded_before_this_segment = 0,
      set_to_lowest_quaity = False, task = None, segment_content_length = PyInt 0\<rparr>"

text \<open>Lines 23-27 of \<open>download_segment\<close>: the read loop, stopped by the empty chunk.\<close>

fun read_chunks :: "bytes list \<Rightarrow> int \<Rightarrow> int" where
  "read_chunks [] n = n"
| "read_chunks (chunk # rest) n =
     (if chunk = [] then n else read_chunks rest (n + int (length chunk)))"

definition download_segment :: "Response \<Rightarrow> Emulator \<Rightarrow> py_error + Emulator" where
  "download_segment resp e =
     (case map_of (headers resp) ''Content-Length'' of
        None \<Rightarrow> Inl KeyError
      | Some v \<Rightarrow>
          Inr (e\<lparr>segment_content_length := PyStr v,
                 data_downloaded_before_this_segment := data_downloaded e,
                 data_downloaded := read_chunks (content resp) (data_downloaded e)\<rparr>))"

section \<open>emulator.py: the progress monitor\<close>

text \<open>
  Lines 46-48 of \<open>download_progress_monitor\<close>: \<open>timeout = length * 8 / bandwidth\<close>,
  where \<open>length\<close> is the attribute \<open>segment_content_length\<close> and \<open>bandwidth\<close>
  is what the speed monitor returns (a parameter here).
\<close>

definition monitor_timeout :: "rat \<Rightarrow> Emulator \<Rightarrow> py_error + rat" where
  "monitor_timeout bandwidth e =
     py_truediv (py_mul_int (segment_content_length e) 8) bandwidth"

text \<open>
  One observation per turn of the polling loop: the clock reading \<open>time.time()\<close>, the
  bytes the download has counted since the previous turn, and whether the download task
  has finished by itself since then.
\<close>

record Poll =
  now :: rat
  arrived :: int
  finished :: bool

definition between_polls :: "Poll \<Rightarrow> Emulator \<Rightarrow> Emulator" where
  "between_polls p e =
     e\<lparr>data_downloaded := data_downloaded e + arrived p,
       task := (case task e of None \<Rightarrow> None
                | Some t \<Rightarrow>
                    Some (if finished p \<and> status t = Pending then t\<lparr>status := Finished\<rparr> else t))\<rparr>"

text \<open>Lines 54-56: the deadline test; the flag is written before \<open>cancel()\<close> is called.\<close>

definition deadline_check ::
  "Config \<Rightarrow> rat \<Rightarrow> rat \<Rightarrow> rat \<Rightarrow> Emulator \<Rightarrow> py_error option \<times> Emulator" where
  "deadline_check cfg start_time timeout t e =
     (if t - start_time > timeout * timeout_max_ratio cfg then
        (case task e of
           None \<Rightarrow> (Some AttributeError, e\<lparr>set_to_lowest_quaity := True\<rparr>)
         | Some tk \<Rightarrow> (None, e\<lparr>set_to_lowest_quaity := True, task := Some (cancel tk)\<rparr>))
      else (None, e))"

text \<open>Lines 58-68: the two threshold comparisons, whose branches do nothing.\<close>

definition threshold_checks :: "Config \<Rightarrow> Emulator \<Rightarrow> py_error option" where
  "threshold_checks cfg e =
     (let got = data_downloaded e - data_downloaded_before_this_segment e in
      case py_ratio_mul (min_frame_chunk_ratio cfg) (segment_content_length e) of
        Inl err \<Rightarrow> Some err
      | Inr bound1 \<Rightarrow>
          if of_int got < bound1 then None
          else (case py_ratio_mul (vq_threshold_size_ratio cfg) (segment_content_length e) of
                  Inl err \<Rightarrow> Some err
                | Inr bound2 \<Rightarrow> None))"

text \<open>
  Lines 53-70: the loop has no exit of its own. It runs one turn per observation; the
  result is the exception that ended it, if any, and the emulator state.
\<close>

fun monitor_polls ::
  "Config \<Rightarrow> rat \<Rightarrow> rat \<Rightarrow> Poll list \<Rightarrow> Emulator \<Rightarrow> py_error option \<times> Emulator" where
  "monitor_polls cfg start_time timeout [] e = (None, e)"
| "monitor_polls cfg start_time timeout (p # later) e =
     (case deadline_check cfg start_time timeout (now p) (between_polls p e) of
        (Some err, e1) \<Rightarrow> (Some err, e1)
      | (None, e1) \<Rightarrow>
          (case threshold_checks cfg e1 of
             Some err \<Rightarrow> (Some err, e1)
           | None \<Rightarrow> monitor_polls cfg start_time timeout later e1))"

definition download_progress_monitor ::
  "Config \<Rightarrow> rat \<Rightarrow> rat \<Rightarrow> Poll list \<Rightarrow> Emulator \<Rightarrow> py_error option \<times> Emulator" where
  "download_progress_monitor cfg bandwidth start_time polls e =
     (case monitor_timeout bandwidth e of
        Inl err \<Rightarrow> (Some err, e)
      | Inr timeout \<Rightarrow> monitor_polls cfg start_time timeout polls e)"

definition cancellations :: "Emulator \<Rightarrow> nat" where
  "cancellations e = (case task e of None \<Rightarrow> 0 | Some t \<Rightarrow> cancel_calls t)"

section \<open>emulator.py: the polling loop of \<open>start\<close>\<close>

text \<open>What happens to one download task while \<open>start\<close> awaits it.\<close>

datatype fetch =
  Served Response
  | Cut Response py_error
  | Refused py_error

definition await_download :: "fetch \<Rightarrow> Emulator \<Rightarrow> py_error option \<times> Emulator" where
  "await_download f e =
     (case f of
        Served resp \<Rightarrow>
          (case download_segment resp e of Inl err \<Rightarrow> (Some err, e) | Inr e1 \<Rightarrow> (None, e1))
      | Cut resp err \<Rightarrow>
          (case download_segment resp e of Inl k \<Rightarrow> (Some k, e) | Inr e1 \<Rightarrow> (Some err, e1))
      | Refused err \<Rightarrow> (Some err, e))"

datatype event =
  Sleep rat
  | TaskCreated string
  | TaskAwaited string "py_error option"
  | FeedSegment rat
  | Trigger Events

datatype ending = Returned | Raised py_error | Unfinished

text \<open>
  One turn of the loop reads the buffer level, asks the ABR controller for a
  representation (the index of the chosen one in the manifest) and performs up to two
  downloads.
\<close>

record Turn =
  buffer_level_read :: rat
  choice :: nat
  init_fetch :: fetch
  media_fetch :: fetch

text \<open>Lines 108-109: the argument of \<open>asyncio.sleep\<close>, when the guard holds.\<close>

definition suspend :: "Config \<Rightarrow> rat \<Rightarrow> event list" where
  "suspend cfg level = (if level > max_buffer cfg then [Sleep (max_buffer cfg - level)] else [])"

text \<open>Lines 112-118: the initialization download of a representation not yet initialised.\<close>

definition fetch_init ::
  "Representation \<Rightarrow> fetch \<Rightarrow> Emulator \<Rightarrow> event list \<times> py_error option \<times> Emulator" where
  "fetch_init r f e =
     (if is_inited r then ([], None, e)
      else
        (let url = initialization r;
             e0 = e\<lparr>task := Some (create_task url)\<rparr>
         in case await_download f e0 of
              (Some err, e1) \<Rightarrow> ([TaskCreated url, TaskAwaited url (Some err)], Some err, e1)
            | (None, e1) \<Rightarrow> ([TaskCreated url, TaskAwaited url None], None, e1\<lparr>task := None\<rparr>)))"

text \<open>Lines 120-130: the media download and the bookkeeping after it.\<close>

definition fetch_media ::
  "Representation \<Rightarrow> int \<Rightarrow> fetch \<Rightarrow> Emulator \<Rightarrow> event list \<times> py_error option \<times> Emulator" where
  "fetch_media r ind f e =
     (case py_index (urls r) ind of
        Inl err \<Rightarrow> ([], Some err, e)
      | Inr url \<Rightarrow>
          (case await_download f (e\<lparr>task := Some (create_task url)\<rparr>) of
             (Some err, e1) \<Rightarrow> ([TaskCreated url, TaskAwaited url (Some err)], Some err, e1)
           | (None, e1) \<Rightarrow>
               (case py_index (durations r) ind of
                  Inl err \<Rightarrow> ([TaskCreated url, TaskAwaited url None], Some err, e1\<lparr>task := None\<rparr>)
                | Inr d \<Rightarrow>
                    ([TaskCreated url, TaskAwaited url None, FeedSegment d], None,
                     e1\<lparr>task := None\<rparr>))))"

text \<open>
  Lines 106-131. \<open>cur\<close> is the representation held by the variable
  \<open>representation\<close> when the loop condition is tested. The ABR controller returns a
  representation object of the manifest; a choice that names none ends the run. The call
  of \<open>set_start_time\<close> and the log lines act on the buffer monitor and the log only and
  are left out: the buffer level is read from the buffer monitor at each turn.
\<close>

fun start_loop ::
  "Config \<Rightarrow> Turn list \<Rightarrow> Representation list \<Rightarrow> nat \<Rightarrow> int \<Rightarrow> Emulator
     \<Rightarrow> event list \<times> ending \<times> Emulator" where
  "start_loop cfg [] reps cur ind e =
     (if ind < int (length (urls (reps ! cur))) then ([], Unfinished, e) else ([], Returned, e))"
| "start_loop cfg (t # ts) reps cur ind e =
     (if \<not> ind < int (length (urls (reps ! cur))) then ([], Returned, e)
      else
        (let zs = suspend cfg (buffer_level_read t); c = choice t in
         if \<not> c < length reps then (zs, Raised IndexError, e)
         else
           (case fetch_init (reps ! c) (init_fetch t) e of
              (tr1, Some err, e1) \<Rightarrow> (zs @ tr1, Raised err, e1)
            | (tr1, None, e1) \<Rightarrow>
                (let reps1 = reps[c := (reps ! c)\<lparr>is_inited := True\<rparr>] in
                 case fetch_media (reps1 ! c) ind (media_fetch t) e1 of
                   (tr2, Some err, e2) \<Rightarrow> (zs @ tr1 @ tr2, Raised err, e2)
                 | (tr2, None, e2) \<Rightarrow>
                     (case start_loop cfg ts reps1 c (ind + 1) e2 of
                        (tr3, fin, e3) \<Rightarrow> (zs @ tr1 @ tr2 @ tr3, fin, e3))))))"

text \<open>
  \<open>start\<close> from line 103 on: the first choice \<open>c0\<close> of the ABR controller fixes the
  start index.
\<close>

definition start ::
  "Config \<Rightarrow> nat \<Rightarrow> Turn list \<Rightarrow> Representation list \<Rightarrow> Emulator
     \<Rightarrow> event list \<times> ending \<times> Emulator" where
  "start cfg c0 ts reps e =
     (if \<not> c0 < length reps then ([], Raised IndexError, e)
      else start_loop cfg ts reps c0 (startNumber (reps ! c0)) e)"

section \<open>managers.py: the two singletons\<close>

datatype State = READY | PLAYING | STALLING | STOPPED

text \<open>The attributes that \<open>PlayManager.__init__\<close> sets.\<close>

record PlayManager =
  cfg :: "Config option"
  mpd :: "MPD option"
  current_time :: rat
  start_time :: rat
  check_buffer_sufficient_task :: "Task option"
  update_current_time_task :: "Task option"
  abr_controller :: "unit option"
  state :: State
  current_video_representation_ind :: int
  current_audio_representation_ind :: int
  bandwidth_segmentwise :: "int option \<rightharpoonup> rat"

definition PlayManager_attrs :: PlayManager where
  "PlayManager_attrs =
     \<lparr>cfg = None, mpd = None, current_time = 0, start_time = 0,
      check_buffer_sufficient_task = None, update_current_time_task = None,
      abr_controller = None, state = READY,
      current_video_representation_ind = - 1, current_audio_representation_ind = - 1,
      bandwidth_segmentwise = Map.empty\<rparr>"

text \<open>
  The attributes that \<open>DownloadManager.__init__\<close> sets. \<open>representation\<close> refers to
  a representation object of the manifest; the reference is its position in the list of
  video representations.
\<close>

record DownloadManager =
  dm_cfg :: "Config option"
  dm_mpd :: "MPD option"
  video_ind :: "int option"
  audio_ind :: "int option"
  dm_abr_controller :: "unit option"
  segment_length :: "pyval option"
  representation :: "nat option"

definition DownloadManager_attrs :: DownloadManager where
  "DownloadManager_attrs =
     \<lparr>dm_cfg = None, dm_mpd = None, video_ind = None, audio_ind = None,
      dm_abr_controller = None, segment_length = None, representation = None\<rparr>"

text \<open>
  The singleton machinery, the same in both classes. An object carries the attribute
  \<open>inited\<close> from \<open>__new__\<close> on and its other attributes once \<open>__init__\<close> has run.
  The class holds the objects created so far, by address, and the class attribute
  \<open>_instance\<close>.
\<close>

record 'a Obj =
  inited :: bool
  attrs :: "'a option"

record 'a Class =
  objects :: "'a Obj list"
  cls_instance :: "nat option"

definition new :: "'a Class \<Rightarrow> 'a Class \<times> nat" where
  "new c =
     (case cls_instance c of
        Some a \<Rightarrow> (c, a)
      | None \<Rightarrow>
          (let a = length (objects c)
           in (c\<lparr>objects := objects c @ [\<lparr>inited = False, attrs = None\<rparr>], cls_instance := Some a\<rparr>,
               a)))"

definition init_object :: "'a \<Rightarrow> nat \<Rightarrow> 'a Class \<Rightarrow> 'a Class" where
  "init_object fresh a c =
     (if \<not> inited (objects c ! a)
      then c\<lparr>objects := (objects c)[a := \<lparr>inited = True, attrs = Some fresh\<rparr>]\<rparr>
      else c)"

text \<open>A constructor call runs \<open>__new__\<close>, then \<open>__init__\<close> on the object it returned.\<close>

definition construct :: "'a \<Rightarrow> 'a Class \<Rightarrow> 'a Class \<times> nat" where
  "construct fresh c = (case new c of (c1, a) \<Rightarrow> (init_object fresh a c1, a))"

definition PlayManager_call :: "PlayManager Class \<Rightarrow> PlayManager Class \<times> nat" where
  "PlayManager_call = construct PlayManager_attrs"

definition DownloadManager_call :: "DownloadManager Class \<Rightarrow> DownloadManager Class \<times> nat" where
  "DownloadManager_call = construct DownloadManager_attrs"

definition no_instance :: "'a Class" where
  "no_instance = \<lparr>objects = [], cls_instance = None\<rparr>"

text \<open>A sequence of constructor calls: the class afterwards and the objects returned.\<close>

fun constructs :: "'a \<Rightarrow> nat \<Rightarrow> 'a Class \<Rightarrow> 'a Class \<times> nat list" where
  "constructs fresh 0 c = (c, [])"
| "constructs fresh (Suc n) c =
     (case construct fresh c of
        (c1, a) \<Rightarrow> (case constructs fresh n c1 of (c2, as) \<Rightarrow> (c2, a # as)))"

section \<open>managers.py: the state the handlers work on\<close>

text \<open>
  The two managers, the attribute \<open>buffer\<close> of the buffer monitor and the counter
  \<open>downloaded\<close> of the speed monitor. The manifest object is reached through the play
  manager's attribute \<open>mpd\<close>.
\<close>

record World =
  pm :: PlayManager
  dm :: DownloadManager
  buffer :: rat
  downloaded :: int

definition manifest :: "World \<Rightarrow> py_error + MPD" where
  "manifest w = (case mpd (pm w) of None \<Rightarrow> Inl AttributeError | Some m \<Rightarrow> Inr m)"

text \<open>Lines 49-59.\<close>

datatype state_arg = Name string | Code int

definition switch_state :: "state_arg \<Rightarrow> PlayManager \<Rightarrow> PlayManager" where
  "switch_state a p =
     (if a = Name ''READY'' \<or> a = Code 0 then p\<lparr>state := READY\<rparr>
      else if a = Name ''PLAYING'' \<or> a = Code 1 then p\<lparr>state := PLAYING\<rparr>
      else if a = Name ''STALLING'' \<or> a = Code 2 then p\<lparr>state := STALLING\<rparr>
      else if a = Name ''STOPPED'' \<or> a = Code 3 then p\<lparr>state := STOPPED\<rparr>
      else p)"

definition ready :: "World \<Rightarrow> bool" where
  "ready w = (state (pm w) = READY)"

text \<open>Lines 77-79.\<close>

definition buffer_level :: "World \<Rightarrow> rat" where
  "buffer_level w = (buffer w - current_time (pm w)) * 1000"

text \<open>Modelled from the spec: the code of \<open>BufferMonitor.feed_segment\<close> is not among the
  sources; it increases the buffer by the duration of the segment.\<close>

definition feed_segment :: "rat \<Rightarrow> World \<Rightarrow> World" where
  "feed_segment d w = w\<lparr>buffer := buffer w + d\<rparr>"

text \<open>
  Lines 93-96: one turn of the clock loop, after its sleep. The clock and the interval
  are Python floats; \<open>fadd\<close> is their sum as Python computes it, rounded to a float,
  about which nothing is assumed.
\<close>

definition update_current_time :: "(rat \<Rightarrow> rat \<Rightarrow> rat) \<Rightarrow> Config \<Rightarrow> World \<Rightarrow> World" where
  "update_current_time fadd c w =
     w\<lparr>pm := (pm w)\<lparr>current_time := fadd (current_time (pm w)) (update_interval c)\<rparr>\<rparr>"

text \<open>
  Lines 81-91: what \<open>check_buffer_sufficient\<close> does when it looks at the buffer: sleep
  for the buffer level in seconds and look again, or leave the loop and trigger an event.
\<close>

datatype verdict = SleepFor rat | Fire Events

definition check_buffer_sufficient :: "World \<Rightarrow> py_error + verdict" where
  "check_buffer_sufficient w =
     (if buffer_level w > 0 then Inr (SleepFor (buffer_level w / 1000))
      else
        (case manifest w of
           Inl err \<Rightarrow> Inl err
         | Inr m \<Rightarrow>
             if mediaPresentationDuration m \<le> current_time (pm w) then Inr (Fire End)
             else Inr (Fire Stall)))"

text \<open>Lines 111-126: the handler of \<open>Play\<close>, at wall-clock time \<open>t\<close>.\<close>

definition play :: "rat \<Rightarrow> World \<Rightarrow> World" where
  "play t w =
     w\<lparr>pm := switch_state (Name ''PLAYING'')
              ((pm w)\<lparr>start_time := t,
                 update_current_time_task := Some (create_task ''update_current_time''),
                 check_buffer_sufficient_task := Some (create_task ''check_buffer_sufficient'')\<rparr>)\<rparr>"

text \<open>Lines 130-137: the handler of \<open>Stall\<close> up to its polling loop.\<close>

definition stall_begin :: "World \<Rightarrow> World" where
  "stall_begin w =
     w\<lparr>pm := switch_state (Name ''STALLING'')
              ((pm w)\<lparr>update_current_time_task := map_option cancel (update_current_time_task (pm w)),
                 check_buffer_sufficient_task :=
                   map_option cancel (check_buffer_sufficient_task (pm w))\<rparr>)\<rparr>"

text \<open>Lines 139-144: one look of the polling loop; true when the loop is left for \<open>Play\<close>.\<close>

definition stall_over :: "World \<Rightarrow> py_error + bool" where
  "stall_over w =
     (case manifest w of
        Inl err \<Rightarrow> Inl err
      | Inr m \<Rightarrow> Inr (buffer w - current_time (pm w) > minBufferTime m))"

text \<open>
  Lines 170-172 with the handlers of \<open>CanPlay\<close> (lines 105-107) and \<open>Play\<close> that the
  trigger runs: the events triggered, the exception raised if any, and the state.
\<close>

definition check_canplay :: "rat \<Rightarrow> World \<Rightarrow> event list \<times> py_error option \<times> World" where
  "check_canplay t w =
     (if \<not> ready w then ([], None, w)
      else
        (case manifest w of
           Inl err \<Rightarrow> ([], Some err, w)
         | Inr m \<Rightarrow>
             if buffer_level w > minBufferTime m
             then ([Trigger CanPlay, Trigger Play], None, play t w)
             else ([], None, w)))"

section \<open>managers.py: the download manager\<close>

text \<open>
  Lines 234-249: \<open>download\<close> stores the header in \<open>segment_length\<close> and adds eight
  times the length of every chunk to the counter of the speed monitor. The optional copy
  of the chunks to a file does not touch the counter and is left out.
\<close>

fun read_chunks_bits :: "bytes list \<Rightarrow> int \<Rightarrow> int" where
  "read_chunks_bits [] n = n"
| "read_chunks_bits (chunk # rest) n =
     (if chunk = [] then n else read_chunks_bits rest (n + int (length chunk) * 8))"

definition download :: "Response \<Rightarrow> World \<Rightarrow> py_error + World" where
  "download resp w =
     (case map_of (headers resp) ''Content-Length'' of
        None \<Rightarrow> Inl KeyError
      | Some v \<Rightarrow>
          Inr (w\<lparr>dm := (dm w)\<lparr>segment_length := Some (PyStr v)\<rparr>,
                 downloaded := read_chunks_bits (content resp) (downloaded w)\<rparr>))"

definition await_task :: "fetch \<Rightarrow> World \<Rightarrow> py_error option \<times> World" where
  "await_task f w =
     (case f of
        Served resp \<Rightarrow>
          (case download resp w of Inl err \<Rightarrow> (Some err, w) | Inr w1 \<Rightarrow> (None, w1))
      | Cut resp err \<Rightarrow>
          (case download resp w of Inl k \<Rightarrow> (Some k, w) | Inr w1 \<Rightarrow> (Some err, w1))
      | Refused err \<Rightarrow> (Some err, w))"

text \<open>
  Writing \<open>is_inited\<close> through the reference \<open>representation\<close> changes the one manifest
  object that both managers hold.
\<close>

definition mark_inited :: "nat \<Rightarrow> MPD \<Rightarrow> MPD" where
  "mark_inited j m =
     m\<lparr>representations := (representations m)[j := (representations m ! j)\<lparr>is_inited := True\<rparr>]\<rparr>"

definition set_is_inited :: "nat \<Rightarrow> World \<Rightarrow> World" where
  "set_is_inited j w =
     w\<lparr>pm := (pm w)\<lparr>mpd := map_option (mark_inited j) (mpd (pm w))\<rparr>,
       dm := (dm w)\<lparr>dm_mpd := map_option (mark_inited j) (dm_mpd (dm w))\<rparr>\<rparr>"

text \<open>
  Line 256: the test at the head of \<open>start_download\<close>. The representation is read
  before the comparison is made; a reference that names no representation of the manifest
  cannot be followed.
\<close>

datatype target = PastEnd | Segment nat Representation int

definition target_segment :: "World \<Rightarrow> py_error + target" where
  "target_segment w =
     (case representation (dm w) of
        None \<Rightarrow> Inl AttributeError
      | Some j \<Rightarrow>
          (case manifest w of
             Inl err \<Rightarrow> Inl err
           | Inr m \<Rightarrow>
               if \<not> j < length (representations m) then Inl AttributeError
               else
                 (case video_ind (dm w) of
                    None \<Rightarrow> Inl TypeError
                  | Some i \<Rightarrow>
                      (let r = representations m ! j
                       in if i \<ge> int (length (urls r)) then Inr PastEnd
                          else Inr (Segment j r i)))))"

text \<open>Lines 259-272: the initialization segment of a representation not yet initialised.\<close>

definition fetch_initialization ::
  "nat \<Rightarrow> Representation \<Rightarrow> fetch \<Rightarrow> World \<Rightarrow> event list \<times> py_error option \<times> World" where
  "fetch_initialization j r f w =
     (if is_inited r then ([], None, w)
      else
        (let url = initialization r
         in case await_task f w of
              (Some err, w1) \<Rightarrow> ([TaskCreated url, TaskAwaited url (Some err)], Some err, w1)
            | (None, w1) \<Rightarrow>
                ([TaskCreated url, TaskAwaited url None, Trigger InitializationDownloadComplete],
                 None, set_is_inited j w1)))"

text \<open>Lines 274-283: the media segment at the index.\<close>

definition fetch_indexed ::
  "Representation \<Rightarrow> int \<Rightarrow> fetch \<Rightarrow> World \<Rightarrow> event list \<times> py_error option \<times> World" where
  "fetch_indexed r i f w =
     (case py_index (urls r) i of
        Inl err \<Rightarrow> ([], Some err, w)
      | Inr url \<Rightarrow>
          (case await_task f w of
             (Some err, w1) \<Rightarrow> ([TaskCreated url, TaskAwaited url (Some err)], Some err, w1)
           | (None, w1) \<Rightarrow> ([TaskCreated url, TaskAwaited url None], None, w1)))"

text \<open>
  What one download round meets: the two fetches, the speed the speed monitor reports,
  the index the ABR controller chooses next, and the wall-clock time.
\<close>

record Round =
  got_init :: fetch
  got_media :: fetch
  speed_read :: rat
  chosen :: int
  wall :: rat

text \<open>Lines 203-207.\<close>

definition save_statistical_data :: "rat \<Rightarrow> World \<Rightarrow> World" where
  "save_statistical_data speed w =
     w\<lparr>pm := (pm w)\<lparr>bandwidth_segmentwise :=
                       (bandwidth_segmentwise (pm w))(video_ind (dm w) \<mapsto> speed)\<rparr>\<rparr>"

text \<open>Lines 161-162: the duration of the segment just downloaded is fed to the buffer.\<close>

definition feed_downloaded :: "World \<Rightarrow> event list \<times> py_error option \<times> World" where
  "feed_downloaded w =
     (case representation (dm w) of
        None \<Rightarrow> ([], Some AttributeError, w)
      | Some j \<Rightarrow>
          (case manifest w of
             Inl err \<Rightarrow> ([], Some err, w)
           | Inr m \<Rightarrow>
               if \<not> j < length (representations m) then ([], Some AttributeError, w)
               else
                 (case video_ind (dm w) of
                    None \<Rightarrow> ([], Some TypeError, w)
                  | Some i \<Rightarrow>
                      (case py_index (durations (representations m ! j)) i of
                         Inl err \<Rightarrow> ([], Some err, w)
                       | Inr d \<Rightarrow> ([FeedSegment d], None, feed_segment d w)))))"

text \<open>Lines 164-167: the next choice of the ABR controller and the next index.\<close>

definition choose_next :: "int \<Rightarrow> World \<Rightarrow> py_error option \<times> World" where
  "choose_next c w =
     (let w1 = w\<lparr>pm := (pm w)\<lparr>current_video_representation_ind := c\<rparr>\<rparr>
      in case manifest w1 of
           Inl err \<Rightarrow> (Some err, w1)
         | Inr m \<Rightarrow>
             (case py_pos (length (representations m)) c of
                Inl err \<Rightarrow> (Some err, w1)
              | Inr j \<Rightarrow>
                  (let w2 = w1\<lparr>dm := (dm w1)\<lparr>representation := Some j\<rparr>\<rparr>
                   in case video_ind (dm w2) of
                        None \<Rightarrow> (Some TypeError, w2)
                      | Some i \<Rightarrow> (None, w2\<lparr>dm := (dm w2)\<lparr>video_ind := Some (i + 1)\<rparr>\<rparr>))))"

text \<open>Lines 157-167: \<open>download_next\<close> up to its trigger of \<open>DownloadStart\<close>.\<close>

definition download_next :: "Round \<Rightarrow> World \<Rightarrow> event list \<times> py_error option \<times> World" where
  "download_next t w =
     (case feed_downloaded (save_statistical_data (speed_read t) w) of
        (tr, Some err, w1) \<Rightarrow> (tr, Some err, w1)
      | (tr, None, w1) \<Rightarrow> (case choose_next (chosen t) w1 of (res, w2) \<Rightarrow> (tr, res, w2)))"

text \<open>
  Modelled from the spec: the code of \<open>EventBridge.trigger\<close> is not among the sources.
  A trigger runs the handlers registered for the event in the order of registration and
  returns once each has returned; an exception of a handler ends the dispatch. The
  handlers registered in the sources are \<open>start_download\<close> for \<open>DownloadStart\<close>,
  \<open>download_next\<close> and then \<open>check_canplay\<close> for \<open>DownloadComplete\<close>,
  \<open>can_play\<close> for \<open>CanPlay\<close>, \<open>play\<close> for \<open>Play\<close>, and none for
  \<open>InitializationDownloadComplete\<close> and \<open>DownloadEnd\<close>.

  Lines 255-286: \<open>start_download\<close>, with the dispatch of \<open>DownloadComplete\<close> that its
  last trigger starts. One round is used per download; a run that has used all its
  rounds is \<open>Unfinished\<close>.
\<close>

fun start_download :: "Round list \<Rightarrow> World \<Rightarrow> event list \<times> ending \<times> World" where
  "start_download [] w =
     (case target_segment w of
        Inl err \<Rightarrow> ([], Raised err, w)
      | Inr PastEnd \<Rightarrow> ([Trigger DownloadEnd], Returned, w)
      | Inr (Segment j r i) \<Rightarrow> ([], Unfinished, w))"
| "start_download (t # rest) w =
     (case target_segment w of
        Inl err \<Rightarrow> ([], Raised err, w)
      | Inr PastEnd \<Rightarrow> ([Trigger DownloadEnd], Returned, w)
      | Inr (Segment j r i) \<Rightarrow>
          (case fetch_initialization j r (got_init t) w of
             (tr1, Some err, w1) \<Rightarrow> (tr1, Raised err, w1)
           | (tr1, None, w1) \<Rightarrow>
               (case fetch_indexed r i (got_media t) w1 of
                  (tr2, Some err, w2) \<Rightarrow> (tr1 @ tr2, Raised err, w2)
                | (tr2, None, w2) \<Rightarrow>
                    (case download_next t w2 of
                       (tr3, Some err, w3) \<Rightarrow>
                         (tr1 @ tr2 @ Trigger DownloadComplete # tr3, Raised err, w3)
                     | (tr3, None, w3) \<Rightarrow>
                         (case start_download rest w3 of
                            (tr4, Returned, w4) \<Rightarrow>
                              (case check_canplay (wall t) w4 of
                                 (tr5, Some err, w5) \<Rightarrow>
                                   (tr1 @ tr2 @ Trigger DownloadComplete # tr3
                                      @ Trigger DownloadStart # tr4 @ tr5, Raised err, w5)
                               | (tr5, None, w5) \<Rightarrow>
                                   (tr1 @ tr2 @ Trigger DownloadComplete # tr3
                                      @ Trigger DownloadStart # tr4 @ tr5, Returned, w5))
                          | (tr4, fin, w4) \<Rightarrow>
                              (tr1 @ tr2 @ Trigger DownloadComplete # tr3
                                 @ Trigger DownloadStart # tr4, fin, w4))))))"

text \<open>
  Lines 148-153: the handler of \<open>MPDParseComplete\<close>, which opens the session with the first
  choice \<open>c0\<close> of the ABR controller.
\<close>

definition download_start :: "int \<Rightarrow> Round list \<Rightarrow> World \<Rightarrow> event list \<times> ending \<times> World" where
  "download_start c0 rs w =
     (let w1 = w\<lparr>pm := (pm w)\<lparr>current_video_representation_ind := c0\<rparr>\<rparr>
      in case manifest w1 of
           Inl err \<Rightarrow> ([], Raised err, w1)
         | Inr m \<Rightarrow>
             (case py_pos (length (representations m)) c0 of
                Inl err \<Rightarrow> ([], Raised err, w1)
              | Inr j \<Rightarrow>
                  (case start_download rs
                          (w1\<lparr>dm := (dm w1)\<lparr>representation := Some j,
                                  video_ind := Some (startNumber (representations m ! j))\<rparr>\<rparr>) of
                     (tr, fin, w2) \<Rightarrow> (Trigger DownloadStart # tr, fin, w2))))"

text \<open>
  Lines 98-100 and 251-253: the state once both \<open>__init__\<close> and both \<open>init\<close> have
  run for a configuration and a manifest.
\<close>

definition world_init :: "Config \<Rightarrow> MPD \<Rightarrow> World" where
  "world_init c m =
     \<lparr>pm = PlayManager_attrs\<lparr>cfg := Some c, mpd := Some m, abr_controller := Some ()\<rparr>,
      dm = DownloadManager_attrs\<lparr>dm_cfg := Some c, dm_mpd := Some m\<rparr>,
      buffer = 0, downloaded = 0\<rparr>"

section \<open>managers.py: the play manager over time\<close>

text \<open>
  What can happen to the play manager, one activity at a time: a downloaded segment is
  fed, \<open>check_canplay\<close> runs, the clock task wakes from its sleep, the buffer check wakes
  from its sleep, the polling loop of the stall handler wakes from its sleep. A task that
  was never created or has been cancelled does not wake.
\<close>

datatype activity =
  SegmentFed rat | CanPlayCheck rat | ClockTick | BufferCheck | StallPoll rat

definition alive :: "Task option \<Rightarrow> bool" where
  "alive t = (case t of None \<Rightarrow> False | Some k \<Rightarrow> status k = Pending)"

definition buffer_check_wakes :: "World \<Rightarrow> World" where
  "buffer_check_wakes w =
     (case check_buffer_sufficient w of
        Inr (Fire Stall) \<Rightarrow> stall_begin w
      | Inr (Fire other) \<Rightarrow>
          w\<lparr>pm := (pm w)\<lparr>check_buffer_sufficient_task :=
                            map_option (\<lambda>k. k\<lparr>status := Finished\<rparr>)
                              (check_buffer_sufficient_task (pm w))\<rparr>\<rparr>
      | other \<Rightarrow> w)"

fun pm_step :: "(rat \<Rightarrow> rat \<Rightarrow> rat) \<Rightarrow> Config \<Rightarrow> activity \<Rightarrow> World \<Rightarrow> World" where
  "pm_step fadd c (SegmentFed d) w = feed_segment d w"
| "pm_step fadd c (CanPlayCheck t) w = (case check_canplay t w of (tr, res, w1) \<Rightarrow> w1)"
| "pm_step fadd c ClockTick w =
     (if alive (update_current_time_task (pm w)) then update_current_time fadd c w else w)"
| "pm_step fadd c BufferCheck w =
     (if alive (check_buffer_sufficient_task (pm w)) then buffer_check_wakes w else w)"
| "pm_step fadd c (StallPoll t) w =
     (if state (pm w) = STALLING \<and> stall_over w = Inr True then play t w else w)"

fun pm_run :: "(rat \<Rightarrow> rat \<Rightarrow> rat) \<Rightarrow> Config \<Rightarrow> activity list \<Rightarrow> World \<Rightarrow> World" where
  "pm_run fadd c [] w = w"
| "pm_run fadd c (a # as) w = pm_run fadd c as (pm_step fadd c a w)"



section \<open>A small session\<close>

text \<open>
  A manifest with one video representation of one segment of two seconds, a clock that
  ticks every three seconds, and responses that arrive whole.
\<close>

definition cfg1 :: Config where
  "cfg1 = \<lparr>chunk_size = 40960, update_interval = 3, max_buffer = 5, timeout_max_ratio = 2,
            min_frame_chunk_ratio = 1 / 10, vq_threshold_size_ratio = 1 / 2\<rparr>"

definition rep1 :: Representation where
  "rep1 = \<lparr>rid = ''v1'', urls = [''seg0''], durations = [2], startNumber = 0,
            initialization = ''init'', is_inited = False\<rparr>"

definition mpd1 :: MPD where
  "mpd1 = \<lparr>representations = [rep1], minBufferTime = 1, mediaPresentationDuration = 2\<rparr>"

definition resp1 :: Response where
  "resp1 = \<lparr>headers = [(''Content-Length'', ''5'')], content = [''ab'', ''cde'']\<rparr>"

definition round1 :: Round where
  "round1 = \<lparr>got_init = Served resp1, got_media = Served resp1, speed_read = 1000000,
              chosen = 0, wall = 0\<rparr>"

definition turn1 :: Turn where
  "turn1 = \<lparr>buffer_level_read = 10, choice = 0, init_fetch = Served resp1,
             media_fetch = Served resp1\<rparr>"

text \<open>The state of the managers once the session above has downloaded its segment.\<close>

definition world1 :: World where
  "world1 = snd (snd (download_start 0 [round1] (world_init cfg1 mpd1)))"

text \<open>
  The scenario of the specification: segments of two seconds and a minimum buffer time
  of four seconds.
\<close>

definition mpd4 :: MPD where
  "mpd4 = \<lparr>representations =
              [\<lparr>rid = ''v1'', urls = [''seg0'', ''seg1'', ''seg2''], durations = [2, 2, 2],
                startNumber = 0, initialization = ''init'', is_inited = False\<rparr>],
            minBufferTime = 4, mediaPresentationDuration = 6\<rparr>"

text \<open>
  A response that declares 500000 bytes, seen when its header has arrived and no chunk
  yet.
\<close>

definition resp500k :: Response where
  "resp500k = \<lparr>headers = [(''Content-Length'', ''500000'')], content = []\<rparr>"

text \<open>The deadline that the progress monitor computes once a response has been received.\<close>

definition deadline_for :: "Response \<Rightarrow> rat \<Rightarrow> Emulator \<Rightarrow> py_error + rat" where
  "deadline_for resp bandwidth e =
     (case download_segment resp e of
        Inl err \<Rightarrow> Inl err
      | Inr e1 \<Rightarrow> monitor_timeout bandwidth e1)"

text \<open>
  The same session three seconds into playback: the buffer check has looked twice (at
  0 s and at 2 s, the clock still at 0) and the clock task has ticked once. The sum of
  0 and 3 is exact in floating point.
\<close>

definition world2 :: World where
  "world2 = pm_run (+) cfg1 [BufferCheck, BufferCheck, ClockTick] world1"



text \<open>
  An emulator whose download is in flight, with the content length held as the integer
  that the annotation of the attribute declares, and two polls after the limit of eight
  seconds.
\<close>

definition emulator_int :: Emulator where
  "emulator_int = Emulator_init\<lparr>segment_content_length := PyInt 500000,
                                 task := Some (create_task ''seg0'')\<rparr>"

definition late_polls :: "Poll list" where
  "late_polls = [\<lparr>now = 9, arrived = 0, finished = False\<rparr>,
                 \<lparr>now = 181 / 20, arrived = 0, finished = False\<rparr>]"

text \<open>
  An emulator whose download is in flight and has received the header of the response
  that declares 500000 bytes.
\<close>

definition emulator_str :: Emulator where
  "emulator_str =
     snd (await_download (Served resp500k) (Emulator_init\<lparr>task := Some (create_task ''seg0'')\<rparr>))"

section \<open>Downloads in flight along a trace\<close>

text \<open>
  The download tasks of a session are those of the traces of \<open>start\<close> and of
  \<open>download_start\<close>: the other coroutines of the sources (\<open>feed_speed_monitor\<close>,
  \<open>download_progress_monitor\<close>, \<open>update_current_time\<close>,
  \<open>check_buffer_sufficient\<close> and the handlers \<open>stall\<close>, \<open>play\<close> and \<open>plot\<close>
  that they reach) create no download task and trigger neither \<open>DownloadStart\<close> nor
  \<open>DownloadComplete\<close>; what they do to a download, its cancellation, is one of the
  fates of a \<open>fetch\<close>.

  The number of download tasks created and not yet awaited to their end after a sequence
  of events.
\<close>

fun in_flight :: "event list \<Rightarrow> int" where
  "in_flight [] = 0"
| "in_flight (TaskCreated u # es) = in_flight es + 1"
| "in_flight (TaskAwaited u r # es) = in_flight es - 1"
| "in_flight (ev # es) = in_flight es"

text \<open>
  A trace is sequential when, read from a moment at which \<open>busy\<close> tells whether a
  download is in flight, every task is created while none is in flight and awaited while
  one is.
\<close>

fun sequential :: "bool \<Rightarrow> event list \<Rightarrow> bool" where
  "sequential busy [] = True"
| "sequential busy (TaskCreated u # es) = (\<not> busy \<and> sequential True es)"
| "sequential busy (TaskAwaited u r # es) = (busy \<and> sequential False es)"
| "sequential busy (ev # es) = sequential busy es"

fun busy_after :: "bool \<Rightarrow> event list \<Rightarrow> bool" where
  "busy_after busy [] = busy"
| "busy_after busy (TaskCreated u # es) = busy_after True es"
| "busy_after busy (TaskAwaited u r # es) = busy_after False es"
| "busy_after busy (ev # es) = busy_after busy es"

section \<open>The byte counters over chunks\<close>

lemma read_chunks_sum:
  "[] \<notin> set chunks \<Longrightarrow> read_chunks chunks n = n + int (length (concat chunks))"
  by (induction chunks arbitrary: n) auto

lemma read_chunks_bits_sum:
  "[] \<notin> set chunks \<Longrightarrow> read_chunks_bits chunks n = n + int (length (concat chunks)) * 8"
  by (induction chunks arbitrary: n) (auto simp: algebra_simps)

text \<open>
  Claim C8. A body that arrives as any sequence of non-empty chunks moves each of the two
  counters exactly as the same bytes arriving as one chunk: \<open>download_segment\<close> ends in
  the same emulator state, \<open>download\<close> in the same state of the managers, and the
  counters have grown by the number of bytes, respectively by eight times that number.
\<close>

theorem chunked_download_same_counter:
  assumes "[] \<notin> set chunks"
  shows "download_segment \<lparr>headers = hs, content = chunks\<rparr> e
           = download_segment \<lparr>headers = hs, content = [concat chunks]\<rparr> e
       \<and> download \<lparr>headers = hs, content = chunks\<rparr> w
           = download \<lparr>headers = hs, content = [concat chunks]\<rparr> w
       \<and> read_chunks chunks n = n + int (length (concat chunks))
       \<and> read_chunks_bits chunks k = k + int (length (concat chunks)) * 8"
proof -
  have a: "read_chunks chunks n' = read_chunks [concat chunks] n'" for n'
    using assms by (simp add: read_chunks_sum)
  have b: "read_chunks_bits chunks n' = read_chunks_bits [concat chunks] n'" for n'
    using assms by (simp add: read_chunks_bits_sum)
  have c1: "download_segment \<lparr>headers = hs, content = chunks\<rparr> e
           = download_segment \<lparr>headers = hs, content = [concat chunks]\<rparr> e"
    unfolding download_segment_def by (simp only: Response.simps a)
  have c2: "download \<lparr>headers = hs, content = chunks\<rparr> w
           = download \<lparr>headers = hs, content = [concat chunks]\<rparr> w"
    unfolding download_def by (simp only: Response.simps b)
  show ?thesis
    using assms c1 c2 read_chunks_sum read_chunks_bits_sum by blast
qed

theorem chunked_download_same_counter_witness:
  "[] \<notin> set [''ab'', ''cde'', ''f'']
   \<and> download_segment \<lparr>headers = [(''Content-Length'', ''6'')], content = [''ab'', ''cde'', ''f'']\<rparr>
        Emulator_init
      = download_segment \<lparr>headers = [(''Content-Length'', ''6'')], content = [''abcdef'']\<rparr>
        Emulator_init
   \<and> read_chunks [''ab'', ''cde'', ''f''] 0 = 6
   \<and> read_chunks_bits [''ab'', ''cde'', ''f''] 0 = 48"
  using chunked_download_same_counter
    [of "[''ab'', ''cde'', ''f'']" "[(''Content-Length'', ''6'')]" Emulator_init _ 0 0]
  by simp

section \<open>One download at a time\<close>

lemma sequential_append:
  "sequential b (xs @ ys) = (sequential b xs \<and> sequential (busy_after b xs) ys)"
  by (induction b xs rule: sequential.induct) auto

lemma busy_after_append:
  "busy_after b (xs @ ys) = busy_after (busy_after b xs) ys"
  by (induction b xs rule: busy_after.induct) auto

lemma sequential_in_flight:
  "sequential b es \<Longrightarrow> in_flight es = (if busy_after b es then 1 else 0) - (if b then 1 else 0)"
  by (induction b es rule: sequential.induct) auto

lemma sequential_take: "sequential b es \<Longrightarrow> sequential b (take n es)"
proof -
  assume "sequential b es"
  then have "sequential b (take n es @ drop n es)" by simp
  then show ?thesis unfolding sequential_append by blast
qed

lemma sequential_created:
  assumes "sequential False es" and "n < length es" and "es ! n = TaskCreated u"
  shows "in_flight (take n es) = 0"
proof -
  have "es = take n es @ TaskCreated u # drop (Suc n) es"
    using assms(2,3) by (metis id_take_nth_drop)
  then have "sequential False (take n es @ TaskCreated u # drop (Suc n) es)"
    using assms(1) by simp
  then have "sequential False (take n es)" and "\<not> busy_after False (take n es)"
    unfolding sequential_append by auto
  then show ?thesis using sequential_in_flight by fastforce
qed

lemma sequential_bounds:
  assumes "sequential False es"
  shows "in_flight (take n es) \<in> {0, 1}"
  using sequential_in_flight[OF sequential_take[OF assms, of n]] by auto

lemma suspend_quiet: "sequential b (suspend c l) \<and> busy_after b (suspend c l) = b"
  by (simp add: suspend_def)

lemma fetch_init_sequential:
  "fetch_init r f e = (tr, res, e') \<Longrightarrow> sequential False tr \<and> \<not> busy_after False tr"
  by (auto simp: fetch_init_def Let_def split: if_splits prod.splits option.splits)

lemma fetch_media_sequential:
  "fetch_media r i f e = (tr, res, e') \<Longrightarrow> sequential False tr \<and> \<not> busy_after False tr"
  by (auto simp: fetch_media_def Let_def split: if_splits prod.splits option.splits sum.splits)

lemma start_loop_sequential:
  "start_loop c ts reps cur ind e = (tr, fin, e')
     \<Longrightarrow> sequential False tr \<and> \<not> busy_after False tr"
proof (induction ts arbitrary: reps cur ind e tr fin e')
  case Nil
  then show ?case by (auto split: if_splits)
next
  case (Cons t ts)
  show ?case
    using Cons.prems Cons.IH
    by (auto simp: Let_def sequential_append busy_after_append suspend_quiet
        split: if_splits prod.splits option.splits
        dest!: fetch_init_sequential fetch_media_sequential)
qed

lemma start_sequential: "sequential False (fst (start c c0 ts reps e))"
proof (cases "c0 < length reps")
  case True
  obtain tr fin e' where "start_loop c ts reps c0 (startNumber (reps ! c0)) e = (tr, fin, e')"
    by (metis prod_cases3)
  then show ?thesis using True start_loop_sequential by (fastforce simp: start_def)
next
  case False
  then show ?thesis by (simp add: start_def)
qed

lemma fetch_initialization_sequential:
  "fetch_initialization j r f w = (tr, res, w')
     \<Longrightarrow> sequential False tr \<and> \<not> busy_after False tr"
  by (auto simp: fetch_initialization_def Let_def split: if_splits prod.splits option.splits)

lemma fetch_indexed_sequential:
  "fetch_indexed r i f w = (tr, res, w') \<Longrightarrow> sequential False tr \<and> \<not> busy_after False tr"
  by (auto simp: fetch_indexed_def Let_def split: if_splits prod.splits option.splits sum.splits)

lemma feed_downloaded_quiet:
  "feed_downloaded w = (tr, res, w') \<Longrightarrow> sequential b tr \<and> busy_after b tr = b"
  by (auto simp: feed_downloaded_def split: if_splits option.splits sum.splits)

lemma download_next_quiet:
  "download_next t w = (tr, res, w') \<Longrightarrow> sequential b tr \<and> busy_after b tr = b"
  by (auto simp: download_next_def split: prod.splits option.splits dest: feed_downloaded_quiet)

lemma check_canplay_quiet:
  "check_canplay t w = (tr, res, w') \<Longrightarrow> sequential b tr \<and> busy_after b tr = b"
  by (auto simp: check_canplay_def split: if_splits sum.splits)

lemma start_download_sequential:
  "start_download rs w = (tr, fin, w') \<Longrightarrow> sequential False tr \<and> \<not> busy_after False tr"
proof (induction rs arbitrary: w tr fin w')
  case Nil
  then show ?case by (auto split: sum.splits target.splits)
next
  case (Cons t rs)
  show ?case
  proof (cases "target_segment w")
    case (Inl err)
    then show ?thesis using Cons.prems by auto
  next
    case (Inr tg)
    show ?thesis
    proof (cases tg)
      case PastEnd
      then show ?thesis using Cons.prems Inr by auto
    next
      case (Segment j r i)
      obtain tr1 res1 w1 where f1: "fetch_initialization j r (got_init t) w = (tr1, res1, w1)"
        by (metis prod_cases3)
      obtain tr2 res2 w2 where f2: "fetch_indexed r i (got_media t) w1 = (tr2, res2, w2)"
        by (metis prod_cases3)
      obtain tr3 res3 w3 where f3: "download_next t w2 = (tr3, res3, w3)"
        by (metis prod_cases3)
      obtain tr4 fin4 w4 where f4: "start_download rs w3 = (tr4, fin4, w4)"
        by (metis prod_cases3)
      obtain tr5 res5 w5 where f5: "check_canplay (wall t) w4 = (tr5, res5, w5)"
        by (metis prod_cases3)
      note s1 = fetch_initialization_sequential[OF f1]
      note s2 = fetch_indexed_sequential[OF f2]
      note s3 = download_next_quiet[OF f3, of False]
      note s4 = Cons.IH[OF f4]
      note s5 = check_canplay_quiet[OF f5, of False]
      show ?thesis
        using Cons.prems Inr Segment f1 f2 f3 f4 f5 s1 s2 s3 s4 s5
        by (auto simp: sequential_append busy_after_append
            split: option.splits ending.splits)
    qed
  qed
qed

lemma download_start_sequential: "sequential False (fst (download_start c0 rs w))"
proof -
  have "sequential False tr" if "start_download rs w1 = (tr, fin, w2)" for w1 tr fin w2
    using start_download_sequential[OF that] by simp
  then show ?thesis
    by (auto simp: download_start_def Let_def split: sum.splits prod.splits)
qed

lemmas emulator_run_defs =
  start_def fetch_init_def fetch_media_def await_download_def download_segment_def
  py_index_def py_pos_def suspend_def create_task_def Let_def cfg1_def rep1_def resp1_def
  turn1_def Emulator_init_def

lemmas managers_run_defs =
  download_start_def world_init_def manifest_def py_pos_def py_index_def Let_def
  target_segment_def fetch_initialization_def fetch_indexed_def await_task_def download_def
  download_next_def save_statistical_data_def feed_downloaded_def feed_segment_def
  choose_next_def check_canplay_def ready_def buffer_level_def play_def switch_state_def
  create_task_def set_is_inited_def mark_inited_def PlayManager_attrs_def
  DownloadManager_attrs_def cfg1_def rep1_def mpd1_def resp1_def round1_def

lemma emulator_trace:
  "fst (start cfg1 0 [turn1] [rep1] Emulator_init) =
     [Sleep (- 5), TaskCreated ''init'', TaskAwaited ''init'' None, TaskCreated ''seg0'',
      TaskAwaited ''seg0'' None, FeedSegment 2]"
  by (simp add: emulator_run_defs)

lemma managers_trace:
  "fst (download_start 0 [round1] (world_init cfg1 mpd1)) =
     [Trigger DownloadStart, TaskCreated ''init'', TaskAwaited ''init'' None,
      Trigger InitializationDownloadComplete, TaskCreated ''seg0'', TaskAwaited ''seg0'' None,
      Trigger DownloadComplete, FeedSegment 2, Trigger DownloadStart, Trigger DownloadEnd,
      Trigger CanPlay, Trigger Play]"
  by (simp add: managers_run_defs)

text \<open>
  Claim C1. In every run of the polling loop \<open>start\<close> and in every run of the event-driven
  session that \<open>download_start\<close> opens, whatever the ABR choices, the buffer readings and
  the fate of each download, the number of download tasks in flight after any number of
  events is 0 or 1, and a task is created only when none is in flight.
\<close>

theorem one_download_at_a_time:
  "in_flight (take n (fst (start c c0 ts reps e))) \<in> {0, 1}
   \<and> (n < length (fst (start c c0 ts reps e))
        \<and> fst (start c c0 ts reps e) ! n = TaskCreated u
      \<longrightarrow> in_flight (take n (fst (start c c0 ts reps e))) = 0)
   \<and> in_flight (take n (fst (download_start i0 rs w))) \<in> {0, 1}
   \<and> (n < length (fst (download_start i0 rs w))
        \<and> fst (download_start i0 rs w) ! n = TaskCreated u
      \<longrightarrow> in_flight (take n (fst (download_start i0 rs w))) = 0)"
proof -
  have a: "sequential False (fst (start c c0 ts reps e))"
    by (rule start_sequential)
  have b: "sequential False (fst (download_start i0 rs w))"
    by (rule download_start_sequential)
  show ?thesis
    using sequential_bounds[OF a, of n] sequential_bounds[OF b, of n]
      sequential_created[OF a, of n u] sequential_created[OF b, of n u]
    by simp
qed

theorem one_download_at_a_time_witness:
  "3 < length (fst (start cfg1 0 [turn1] [rep1] Emulator_init))
   \<and> fst (start cfg1 0 [turn1] [rep1] Emulator_init) ! 3 = TaskCreated ''seg0''
   \<and> in_flight (take 3 (fst (start cfg1 0 [turn1] [rep1] Emulator_init))) = 0
   \<and> 4 < length (fst (download_start 0 [round1] (world_init cfg1 mpd1)))
   \<and> fst (download_start 0 [round1] (world_init cfg1 mpd1)) ! 4 = TaskCreated ''seg0''
   \<and> in_flight (take 4 (fst (download_start 0 [round1] (world_init cfg1 mpd1)))) = 0"
proof -
  have h1: "3 < length (fst (start cfg1 0 [turn1] [rep1] Emulator_init))
      \<and> fst (start cfg1 0 [turn1] [rep1] Emulator_init) ! 3 = TaskCreated ''seg0''"
    by (simp add: emulator_trace)
  have h2: "4 < length (fst (download_start 0 [round1] (world_init cfg1 mpd1)))
      \<and> fst (download_start 0 [round1] (world_init cfg1 mpd1)) ! 4 = TaskCreated ''seg0''"
    by (simp add: managers_trace)
  show ?thesis
    using h1 h2
      one_download_at_a_time[of 3 cfg1 0 "[turn1]" "[rep1]" Emulator_init "''seg0''"]
      one_download_at_a_time[of 4 _ _ _ _ _ "''seg0''" 0 "[round1]" "world_init cfg1 mpd1"]
    by blast
qed

section \<open>The order of the actions of \<open>start_download\<close>\<close>


lemma set_is_inited_flag:
  assumes "mpd (pm w) = Some m" and "j < length (representations m)"
  shows "\<exists>m1. mpd (pm (set_is_inited j w)) = Some m1 \<and> is_inited (representations m1 ! j)"
  using assms by (simp add: set_is_inited_def mark_inited_def)


lemma target_segment_inside:
  assumes "mpd (pm w) = Some m" and "representation (dm w) = Some j"
    and "j < length (representations m)" and "video_ind (dm w) = Some i"
    and "i < int (length (urls (representations m ! j)))"
  shows "target_segment w = Inr (Segment j (representations m ! j) i)"
  using assms by (simp add: target_segment_def manifest_def)

lemma start_download_uninitialised:
  assumes "mpd (pm w) = Some m" and "representation (dm w) = Some j"
    and "j < length (representations m)" and "video_ind (dm w) = Some i"
    and "r = representations m ! j"
    and "i < int (length (urls r))" and "\<not> is_inited r"
    and "await_task (got_init t) w = (None, w1)"
    and "py_index (urls r) i = Inr url"
    and "await_task (got_media t) (set_is_inited j w1) = (None, w2)"
  shows "\<exists>rest fin w'. start_download (t # rs) w =
           ([TaskCreated (initialization r), TaskAwaited (initialization r) None,
             Trigger InitializationDownloadComplete, TaskCreated url, TaskAwaited url None,
             Trigger DownloadComplete] @ rest, fin, w')"
proof -
  have tg: "target_segment w = Inr (Segment j r i)"
    using assms(1-6) target_segment_inside by simp
  have f1: "fetch_initialization j r (got_init t) w =
      ([TaskCreated (initialization r), TaskAwaited (initialization r) None,
        Trigger InitializationDownloadComplete], None, set_is_inited j w1)"
    using assms(7,8) by (simp add: fetch_initialization_def Let_def)
  have f2: "fetch_indexed r i (got_media t) (set_is_inited j w1) =
      ([TaskCreated url, TaskAwaited url None], None, w2)"
    using assms(9,10) by (simp add: fetch_indexed_def)
  show ?thesis
    by (auto simp: tg f1 f2 split: prod.splits option.splits ending.splits)
qed

















lemma world1_value:
  "world1 =
     \<lparr>pm = \<lparr>cfg = Some cfg1,
             mpd = Some (mpd1\<lparr>representations := [rep1\<lparr>is_inited := True\<rparr>]\<rparr>),
             current_time = 0, start_time = 0,
             check_buffer_sufficient_task = Some (create_task ''check_buffer_sufficient''),
             update_current_time_task = Some (create_task ''update_current_time''),
             abr_controller = Some (), state = PLAYING,
             current_video_representation_ind = 0, current_audio_representation_ind = - 1,
             bandwidth_segmentwise = [Some 0 \<mapsto> 1000000]\<rparr>,
      dm = \<lparr>dm_cfg = Some cfg1,
             dm_mpd = Some (mpd1\<lparr>representations := [rep1\<lparr>is_inited := True\<rparr>]\<rparr>),
             video_ind = Some 1, audio_ind = None, dm_abr_controller = None,
             segment_length = Some (PyStr ''5''), representation = Some 0\<rparr>,
      buffer = 2, downloaded = 80\<rparr>"
  unfolding world1_def
  by (simp add: managers_run_defs)



section \<open>The singletons\<close>

lemma construct_again:
  "cls_instance c = Some a \<Longrightarrow> inited (objects c ! a) \<Longrightarrow> construct fresh c = (c, a)"
  by (simp add: construct_def new_def init_object_def)

lemma construct_first:
  "construct fresh no_instance =
     (\<lparr>objects = [\<lparr>inited = True, attrs = Some fresh\<rparr>], cls_instance = Some 0\<rparr>, 0)"
  by (simp add: construct_def new_def init_object_def no_instance_def)

lemma constructs_again:
  "cls_instance c = Some a \<Longrightarrow> inited (objects c ! a)
     \<Longrightarrow> constructs fresh n c = (c, replicate n a)"
  by (induction n) (simp_all add: construct_again)

lemma constructs_from_start:
  "constructs fresh (Suc n) no_instance =
     (fst (construct fresh no_instance), replicate (Suc n) 0)"
  by (simp add: construct_first constructs_again)

text \<open>
  Claim C10. Once a class holds an initialised instance, whatever its attributes have
  become since, a constructor call returns that instance and leaves every object of the
  class as it is; the first call of a process creates the instance with the attributes of
  \<open>__init__\<close>; and any number of calls made one after the other from the start of the
  process return the same instance and end in the state that the first call produced.
  This holds for \<open>PlayManager()\<close> and for \<open>DownloadManager()\<close>.
\<close>

theorem singleton_constructors:
  "(cls_instance c = Some a \<and> a < length (objects c) \<and> inited (objects c ! a)
      \<longrightarrow> PlayManager_call c = (c, a))
   \<and> (cls_instance d = Some b \<and> b < length (objects d) \<and> inited (objects d ! b)
      \<longrightarrow> DownloadManager_call d = (d, b))
   \<and> PlayManager_call no_instance =
       (\<lparr>objects = [\<lparr>inited = True, attrs = Some PlayManager_attrs\<rparr>], cls_instance = Some 0\<rparr>, 0)
   \<and> DownloadManager_call no_instance =
       (\<lparr>objects = [\<lparr>inited = True, attrs = Some DownloadManager_attrs\<rparr>],
         cls_instance = Some 0\<rparr>, 0)
   \<and> constructs PlayManager_attrs (Suc n) no_instance =
       (fst (PlayManager_call no_instance), replicate (Suc n) 0)
   \<and> constructs DownloadManager_attrs (Suc n) no_instance =
       (fst (DownloadManager_call no_instance), replicate (Suc n) 0)"
  unfolding PlayManager_call_def DownloadManager_call_def
  using construct_again[of c a PlayManager_attrs] construct_again[of d b DownloadManager_attrs]
    construct_first[of PlayManager_attrs] construct_first[of DownloadManager_attrs]
    constructs_from_start[of PlayManager_attrs n] constructs_from_start[of DownloadManager_attrs n]
  by simp

theorem singleton_constructors_witness:
  "cls_instance (fst (PlayManager_call no_instance)) = Some 0
   \<and> 0 < length (objects (fst (PlayManager_call no_instance)))
   \<and> inited (objects (fst (PlayManager_call no_instance)) ! 0)
   \<and> PlayManager_call (fst (PlayManager_call no_instance))
       = (fst (PlayManager_call no_instance), 0)
   \<and> cls_instance (fst (DownloadManager_call no_instance)) = Some 0
   \<and> 0 < length (objects (fst (DownloadManager_call no_instance)))
   \<and> inited (objects (fst (DownloadManager_call no_instance)) ! 0)
   \<and> DownloadManager_call (fst (DownloadManager_call no_instance))
       = (fst (DownloadManager_call no_instance), 0)
   \<and> snd (constructs PlayManager_attrs 3 no_instance) = [0, 0, 0]"
proof -
  have p: "cls_instance (fst (PlayManager_call no_instance)) = Some 0
      \<and> 0 < length (objects (fst (PlayManager_call no_instance)))
      \<and> inited (objects (fst (PlayManager_call no_instance)) ! 0)"
    by (simp add: PlayManager_call_def construct_first)
  have q: "cls_instance (fst (DownloadManager_call no_instance)) = Some 0
      \<and> 0 < length (objects (fst (DownloadManager_call no_instance)))
      \<and> inited (objects (fst (DownloadManager_call no_instance)) ! 0)"
    by (simp add: DownloadManager_call_def construct_first)
  have three: "replicate (Suc 2) (0::nat) = [0, 0, 0]"
    by (simp add: numeral_2_eq_2)
  have r1: "PlayManager_call (fst (PlayManager_call no_instance))
      = (fst (PlayManager_call no_instance), 0)"
    using p singleton_constructors[of "fst (PlayManager_call no_instance)" 0] by blast
  have r2: "DownloadManager_call (fst (DownloadManager_call no_instance))
      = (fst (DownloadManager_call no_instance), 0)"
    using q singleton_constructors[of _ _ "fst (DownloadManager_call no_instance)" 0] by blast
  have "constructs PlayManager_attrs (Suc 2) no_instance =
      (fst (PlayManager_call no_instance), replicate (Suc 2) 0)"
    using singleton_constructors[of _ _ _ _ 2] by blast
  then have r3: "snd (constructs PlayManager_attrs 3 no_instance) = [0, 0, 0]"
    unfolding three by (simp only: snd_conv eval_nat_numeral)
  show ?thesis
    using p q r1 r2 r3 by blast
qed

section \<open>The buffer level and the playback clock\<close>

lemmas timeline_defs =
  alive_def buffer_check_wakes_def check_buffer_sufficient_def buffer_level_def manifest_def
  update_current_time_def stall_begin_def create_task_def cancel_def switch_state_def
  mpd1_def rep1_def cfg1_def

lemma world2_value: "world2 = world1\<lparr>pm := (pm world1)\<lparr>current_time := 3\<rparr>\<rparr>"
  unfolding world2_def
  by (simp add: world1_value timeline_defs)

lemma world2_facts:
  "buffer world2 = 2" "current_time (pm world2) = 3"
  "mpd (pm world2) = Some (mpd1\<lparr>representations := [rep1\<lparr>is_inited := True\<rparr>]\<rparr>)"
  by (simp_all add: world2_value world1_value)

text \<open>
  Claim C2, as stated, fails: in the session of one segment of two seconds, three seconds
  into playback the clock task has ticked once and the buffer level is -1000 ms.
\<close>

theorem buffer_level_negative_counterexample: "\<not> 0 \<le> buffer_level world2"
  by (simp add: buffer_level_def world2_facts)

text \<open>
  Claim C2, amended. The buffer level is the fed duration minus the playback clock, in
  milliseconds, with no clamp: it is negative exactly when the clock has advanced beyond
  the fed duration. When the buffer check finds a level that is not positive it leaves
  its loop and triggers \<open>End\<close> if the clock has reached the presentation duration, and
  \<open>Stall\<close> otherwise.
\<close>

theorem buffer_level_unclamped:
  "buffer_level w = (buffer w - current_time (pm w)) * 1000
   \<and> (buffer_level w < 0) = (buffer w < current_time (pm w))
   \<and> (mpd (pm w) = Some m \<and> buffer_level w \<le> 0
        \<longrightarrow> check_buffer_sufficient w =
              Inr (Fire (if mediaPresentationDuration m \<le> current_time (pm w) then End
                         else Stall)))"
  by (auto simp: buffer_level_def check_buffer_sufficient_def manifest_def
      mult_less_0_iff)

theorem buffer_level_unclamped_witness:
  "mpd (pm world2) = Some (mpd1\<lparr>representations := [rep1\<lparr>is_inited := True\<rparr>]\<rparr>)
   \<and> buffer_level world2 \<le> 0
   \<and> buffer_level world2 = - 1000
   \<and> check_buffer_sufficient world2 = Inr (Fire End)"
proof -
  have h: "mpd (pm world2) = Some (mpd1\<lparr>representations := [rep1\<lparr>is_inited := True\<rparr>]\<rparr>)
      \<and> buffer_level world2 \<le> 0"
    by (simp add: buffer_level_def world2_facts)
  have d: "mediaPresentationDuration (mpd1\<lparr>representations := [rep1\<lparr>is_inited := True\<rparr>]\<rparr>)
      \<le> current_time (pm world2)"
    by (simp add: world2_facts mpd1_def)
  have v: "(buffer world2 - current_time (pm world2)) * 1000 = - 1000"
    by (simp add: world2_facts)
  show ?thesis
    using h d v
      buffer_level_unclamped[of world2 "mpd1\<lparr>representations := [rep1\<lparr>is_inited := True\<rparr>]\<rparr>"]
    by simp
qed

lemma switch_state_time: "current_time (switch_state a p) = current_time p"
  by (simp add: switch_state_def)

lemma pm_step_time:
  "current_time (pm (pm_step fadd c a w)) =
     (if a = ClockTick \<and> alive (update_current_time_task (pm w))
      then fadd (current_time (pm w)) (update_interval c) else current_time (pm w))"
proof (cases a)
  case (SegmentFed d)
  then show ?thesis by (simp add: feed_segment_def)
next
  case (CanPlayCheck t)
  then show ?thesis
    by (auto simp: check_canplay_def play_def switch_state_time split: sum.splits)
next
  case ClockTick
  then show ?thesis by (simp add: update_current_time_def)
next
  case BufferCheck
  then show ?thesis
    by (auto simp: buffer_check_wakes_def stall_begin_def switch_state_time
        split: sum.splits verdict.splits Events.splits)
next
  case (StallPoll t)
  then show ?thesis by (simp add: play_def switch_state_time)
qed

lemma tick_keeps_clock_task:
  "update_current_time_task (pm (pm_step fadd c ClockTick w)) = update_current_time_task (pm w)"
  by (simp add: update_current_time_def)

lemma ticks_run:
  "alive (update_current_time_task (pm w)) \<Longrightarrow>
     current_time (pm (pm_run fadd c (replicate n ClockTick) w))
       = ((\<lambda>x. fadd x (update_interval c)) ^^ n) (current_time (pm w))"
proof (induction n arbitrary: w)
  case 0
  then show ?case by simp
next
  case (Suc n)
  have live: "alive (update_current_time_task (pm (pm_step fadd c ClockTick w)))"
    using Suc.prems by (simp only: tick_keeps_clock_task)
  have step: "current_time (pm (pm_step fadd c ClockTick w))
      = fadd (current_time (pm w)) (update_interval c)"
    using Suc.prems pm_step_time[of fadd c ClockTick w] by simp
  have "current_time (pm (pm_run fadd c (replicate (Suc n) ClockTick) w))
      = ((\<lambda>x. fadd x (update_interval c)) ^^ n) (fadd (current_time (pm w)) (update_interval c))"
    using Suc.IH[OF live] step by (simp del: pm_step.simps)
  then show ?case
    using funpow_swap1[of "\<lambda>x. fadd x (update_interval c)" n "current_time (pm w)"]
    by (simp del: pm_run.simps replicate.simps)
qed

lemma quiet_run:
  "ClockTick \<notin> set acts \<Longrightarrow>
     current_time (pm (pm_run fadd c acts w)) = current_time (pm w)"
proof (induction acts arbitrary: w)
  case Nil
  then show ?case by simp
next
  case (Cons a acts)
  have "current_time (pm (pm_step fadd c a w)) = current_time (pm w)"
    using Cons.prems pm_step_time[of fadd c a w] by auto
  then show ?case using Cons by (simp del: pm_step.simps)
qed

text \<open>
  Claim C7, as stated, fails: in the session of one segment, whose presentation lasts two
  seconds, the first tick of a clock that ticks every three seconds puts the playback
  clock at 3 (the sum of 0 and 3, exact in floating point).
\<close>

theorem clock_exceeds_duration_counterexample:
  "\<not> current_time (pm world2) \<le> mediaPresentationDuration mpd1"
  by (simp add: world2_facts mpd1_def)

text \<open>
  Claim C7, amended. The playback clock starts at 0. A turn of the clock loop replaces it
  by the sum of the clock and the tick interval, as Python computes it, whatever the
  presentation duration is; an activity of the play manager changes the clock in this way
  when it is a tick of a live clock task and not at all otherwise; so \<open>n\<close> ticks of a
  live clock task apply the sum \<open>n\<close> times, and activities other than ticks leave the
  clock as it is. Nothing compares the clock with the presentation duration.
\<close>

theorem clock_advances_per_tick:
  "current_time (pm (world_init c m)) = 0
   \<and> current_time (pm (update_current_time fadd c w))
       = fadd (current_time (pm w)) (update_interval c)
   \<and> current_time (pm (pm_step fadd c a w)) =
       (if a = ClockTick \<and> alive (update_current_time_task (pm w))
        then fadd (current_time (pm w)) (update_interval c) else current_time (pm w))
   \<and> (alive (update_current_time_task (pm w))
        \<longrightarrow> current_time (pm (pm_run fadd c (replicate n ClockTick) w))
              = ((\<lambda>x. fadd x (update_interval c)) ^^ n) (current_time (pm w)))
   \<and> (ClockTick \<notin> set acts
        \<longrightarrow> current_time (pm (pm_run fadd c acts w)) = current_time (pm w))"
  using ticks_run[of w fadd c n] quiet_run[of acts fadd c w] pm_step_time[of fadd c a w]
  by (simp add: world_init_def PlayManager_attrs_def update_current_time_def
      del: pm_step.simps)

theorem clock_advances_per_tick_witness:
  "alive (update_current_time_task (pm world1))
   \<and> current_time (pm (pm_run (+) cfg1 (replicate 1 ClockTick) world1)) = 3
   \<and> ClockTick \<notin> set [BufferCheck, BufferCheck]
   \<and> current_time (pm (pm_run (+) cfg1 [BufferCheck, BufferCheck] world1)) = 0"
proof -
  have a: "alive (update_current_time_task (pm world1))"
    by (simp add: world1_value alive_def create_task_def)
  have b: "ClockTick \<notin> set [BufferCheck, BufferCheck]"
    by simp
  have v: "current_time (pm world1) = 0" "update_interval cfg1 = 3"
    by (simp_all add: world1_value cfg1_def)
  have one: "((\<lambda>x. x + update_interval cfg1) ^^ 1) (current_time (pm world1)) = 3"
    by (simp add: v)
  have r1: "current_time (pm (pm_run (+) cfg1 (replicate 1 ClockTick) world1)) = 3"
    using clock_advances_per_tick[of cfg1 mpd1 "(+)" world1 ClockTick 1] a one by metis
  have r2: "current_time (pm (pm_run (+) cfg1 [BufferCheck, BufferCheck] world1)) = 0"
    using clock_advances_per_tick[of cfg1 mpd1 "(+)" world1 ClockTick 1
        "[BufferCheck, BufferCheck]"] b v(1) by metis
  show ?thesis using a b r1 r2 by blast
qed

section \<open>The readiness check\<close>

lemma check_canplay_fires:
  "mpd (pm w) = Some m \<Longrightarrow>
     (fst (check_canplay t w) = [Trigger CanPlay, Trigger Play])
       = (state (pm w) = READY \<and> (buffer w - current_time (pm w)) * 1000 > minBufferTime m)"
  by (simp add: check_canplay_def ready_def manifest_def buffer_level_def)

text \<open>
  Claim C5 against the code: with segments of two seconds and a minimum buffer time of
  four seconds, the check made when one segment has been fed, with two seconds in the
  buffer, triggers \<open>CanPlay\<close>: the level it compares with the threshold is in
  milliseconds.
\<close>

theorem canplay_after_one_segment:
  "buffer (feed_segment 2 (world_init cfg1 mpd4))
     - current_time (pm (feed_segment 2 (world_init cfg1 mpd4))) = 2
   \<and> minBufferTime mpd4 = 4
   \<and> fst (check_canplay 0 (feed_segment 2 (world_init cfg1 mpd4)))
       = [Trigger CanPlay, Trigger Play]"
  by (simp add: check_canplay_def ready_def world_init_def feed_segment_def manifest_def
      buffer_level_def PlayManager_attrs_def mpd4_def)

section \<open>The progress monitor\<close>

lemma monitor_timeout_int:
  "segment_content_length e = PyInt L \<Longrightarrow> bandwidth \<noteq> 0
     \<Longrightarrow> monitor_timeout bandwidth e = Inr (of_int L * 8 / bandwidth)"
  by (simp add: monitor_timeout_def py_truediv_def py_mul_int_def)

lemma monitor_timeout_int_example: "monitor_timeout 1000000 emulator_int = Inr 4"
  by (simp add: monitor_timeout_def py_truediv_def py_mul_int_def emulator_int_def)

lemma deadline_for_header:
  "map_of (headers resp) ''Content-Length'' = Some v \<Longrightarrow> deadline_for resp bandwidth e = Inl TypeError"
  by (simp add: deadline_for_def download_segment_def monitor_timeout_def py_truediv_def
      py_mul_int_def)

text \<open>
  Claim C3 against the code: for the response that declares 500000 bytes and a bandwidth
  estimate of 1000000 bits per second, the computation of the deadline raises a type
  error: \<open>download_segment\<close> has stored the header as text.
\<close>

theorem deadline_of_declared_length:
  "deadline_for resp500k 1000000 Emulator_init = Inl TypeError"
  by (simp add: deadline_for_def resp500k_def download_segment_def monitor_timeout_def
      py_truediv_def py_mul_int_def)

lemmas monitor_defs =
  download_progress_monitor_def monitor_timeout_def py_truediv_def py_mul_int_def
  deadline_check_def threshold_checks_def py_ratio_mul_def between_polls_def cancel_def
  create_task_def cancellations_def emulator_int_def late_polls_def Emulator_init_def cfg1_def
  Let_def

text \<open>
  Claim C4 against the code: once the header of a response has been stored, the monitor
  raises a type error before its first poll, so that no cancellation occurs and the flag
  stays unset however late the download is; and with the content length held as an
  integer, the loop, which has no exit, calls \<open>cancel()\<close> at each of two polls after the
  limit.
\<close>

theorem monitor_cancellations:
  "download_progress_monitor cfg1 1000000 0 late_polls emulator_str = (Some TypeError, emulator_str)
   \<and> cancellations emulator_str = 0
   \<and> \<not> set_to_lowest_quaity emulator_str
   \<and> cancellations (snd (download_progress_monitor cfg1 1000000 0 late_polls emulator_int)) = 2"
  by (simp add: monitor_defs emulator_str_def await_download_def download_segment_def
      resp500k_def)

section \<open>The pause of the polling loop\<close>

lemma suspend_negative: "Sleep d \<in> set (suspend c level) \<Longrightarrow> d < 0"
  by (auto simp: suspend_def split: if_splits)

text \<open>
  Claim C9 against the code: with a buffer level of 10 above the maximum of 5, the loop
  calls \<open>asyncio.sleep\<close> with -5 and creates the next download task straight after.
\<close>

theorem pause_above_max_buffer:
  "max_buffer cfg1 < buffer_level_read turn1
   \<and> suspend cfg1 (buffer_level_read turn1) = [Sleep (- 5)]
   \<and> take 2 (fst (start cfg1 0 [turn1] [rep1] Emulator_init))
       = [Sleep (- 5), TaskCreated ''init'']"
proof -
  have a: "max_buffer cfg1 < buffer_level_read turn1
      \<and> suspend cfg1 (buffer_level_read turn1) = [Sleep (- 5)]"
    by (simp add: suspend_def cfg1_def turn1_def)
  have b: "take 2 (fst (start cfg1 0 [turn1] [rep1] Emulator_init))
      = [Sleep (- 5), TaskCreated ''init'']"
    by (simp add: emulator_trace)
  show ?thesis using a b by blast
qed

end
